theory Spec2Isabelle
  imports Main
begin

section \<open>Strings: Go's \<open>strings.TrimSpace\<close>\<close>

text \<open>
  A Go string is a sequence of bytes, here a \<^typ>\<open>string\<close> (a list of 8-bit characters).
  \<open>strings.TrimSpace\<close> removes the leading and the trailing white space, where white space
  is a rune with Unicode's White\_Space property, read from the UTF-8 encoding:
  U+0009..U+000D and U+0020 (one byte each), U+0085, U+00A0 (two bytes), U+1680,
  U+2000..U+200A, U+2028, U+2029, U+202F, U+205F and U+3000 (three bytes). A byte that
  does not start a valid encoding decodes to the replacement rune, which is not white
  space, so trimming stops there.
\<close>

definition asciiSpace :: "char \<Rightarrow> bool" where
  "asciiSpace c \<longleftrightarrow>
     c = CHR 0x09 \<or> c = CHR 0x0A \<or> c = CHR 0x0B \<or> c = CHR 0x0C \<or> c = CHR 0x0D \<or> c = CHR 0x20"

definition utf8Spaces :: "string list" where
  "utf8Spaces =
     [[CHR 0xC2, CHR 0x85], [CHR 0xC2, CHR 0xA0], [CHR 0xE1, CHR 0x9A, CHR 0x80],
      [CHR 0xE2, CHR 0x80, CHR 0x80], [CHR 0xE2, CHR 0x80, CHR 0x81],
      [CHR 0xE2, CHR 0x80, CHR 0x82], [CHR 0xE2, CHR 0x80, CHR 0x83],
      [CHR 0xE2, CHR 0x80, CHR 0x84], [CHR 0xE2, CHR 0x80, CHR 0x85],
      [CHR 0xE2, CHR 0x80, CHR 0x86], [CHR 0xE2, CHR 0x80, CHR 0x87],
      [CHR 0xE2, CHR 0x80, CHR 0x88], [CHR 0xE2, CHR 0x80, CHR 0x89],
      [CHR 0xE2, CHR 0x80, CHR 0x8A], [CHR 0xE2, CHR 0x80, CHR 0xA8],
      [CHR 0xE2, CHR 0x80, CHR 0xA9], [CHR 0xE2, CHR 0x80, CHR 0xAF],
      [CHR 0xE2, CHR 0x81, CHR 0x9F], [CHR 0xE3, CHR 0x80, CHR 0x80]]"

text \<open>The number of bytes of the white-space rune a string starts with, 0 when it starts with none.\<close>

definition firstSpace :: "string \<Rightarrow> nat" where
  "firstSpace s =
     (case s of
        [] \<Rightarrow> 0
      | c # _ \<Rightarrow>
          if asciiSpace c then 1
          else (case find (\<lambda>e. take (length e) s = e) utf8Spaces of
                  Some e \<Rightarrow> length e
                | None \<Rightarrow> 0))"

text \<open>The same for the rune a string ends with.\<close>

definition lastSpace :: "string \<Rightarrow> nat" where
  "lastSpace s =
     (case rev s of
        [] \<Rightarrow> 0
      | c # _ \<Rightarrow>
          if asciiSpace c then 1
          else (case find (\<lambda>e. drop (length s - length e) s = e) utf8Spaces of
                  Some e \<Rightarrow> length e
                | None \<Rightarrow> 0))"

function TrimLeft :: "string \<Rightarrow> string" where
  "TrimLeft s = (if firstSpace s = 0 then s else TrimLeft (drop (firstSpace s) s))"
  by pat_completeness auto
termination
  by (relation "measure length") (auto simp: firstSpace_def split: list.splits)

function TrimRight :: "string \<Rightarrow> string" where
  "TrimRight s = (if lastSpace s = 0 then s else TrimRight (take (length s - lastSpace s) s))"
  by pat_completeness auto
termination
  by (relation "measure length") (auto simp: lastSpace_def split: list.splits)

declare TrimLeft.simps [simp del] TrimRight.simps [simp del]

definition TrimSpace :: "string \<Rightarrow> string" where
  "TrimSpace s = TrimRight (TrimLeft s)"


section \<open>The data model\<close>

text \<open>
  The errors of package \<open>verify\<close>, one constructor for each \<open>fmt.Errorf\<close> of the source
  (the constructor's arguments are the values the message is formatted with), and
  \<open>External\<close> for an error value that a collaborator returns: the command runner and
  package \<open>kubectl\<close>, \<open>ioutil.ReadFile\<close>, the YAML parser.
\<close>

datatype error =
    VerifyFileNotProvided
      \<comment> \<open>failed to load: verify file is not provided\<close>
  | InstallationNil string
      \<comment> \<open>failed to check IsDeployed / IsRunning: installation object is nil\<close>
  | ConditionNotSupported string
      \<comment> \<open>condition '...' is not supported\<close>
  | ActionNotSupported string
      \<comment> \<open>action '...' is not supported\<close>
  | LabelsMissing string string
      \<comment> \<open>unable to fetch component 'kind' 'alias': component labels are missing
          (the format has a third verb and no third argument)\<close>
  | RunningPodsNotFound string
      \<comment> \<open>failed to delete any running pod: pods with alias '...' and running state are not found\<close>
  | OldestPodNotFound string
      \<comment> \<open>failed to delete oldest running pod: pod with alias '...' and running state is not found\<close>
  | ComponentNotFound string
      \<comment> \<open>component not found for alias '...'\<close>
  | MultipleComponents string
      \<comment> \<open>multiple components found for alias '...': alias should be unique in an install\<close>
  | KindRequired
      \<comment> \<open>unable to verify component running status: component kind is required\<close>
  | LabelsRequired string
      \<comment> \<open>unable to verify component 'kind' running status: component labels are required\<close>
  | NodeLabelsRequired string
      \<comment> \<open>unable to fetch component 'kind' node: component labels are required\<close>
  | External string

text \<open>
  A Go function with results \<open>(yes bool, err error)\<close> returns both values, and \<open>err\<close>
  may be nil: the pair is \<^typ>\<open>bool \<times> error option\<close>, with \<^term>\<open>None\<close> for nil.
\<close>

record Component =
  Name :: string
  Namespace :: string
  Kind :: string
  APIVersion :: string
  Labels :: string
  Alias :: string

record Installation =
  VerifyID :: string
  Version :: string
  Components :: "Component list"

text \<open>The zero values of the two structs.\<close>

definition zeroComponent :: Component where
  "zeroComponent =
     \<lparr>Name = [], Namespace = [], Kind = [], APIVersion = [], Labels = [], Alias = []\<rparr>"

definition zeroInstallation :: Installation where
  "zeroInstallation = \<lparr>VerifyID = [], Version = [], Components = []\<rparr>"

section \<open>The collaborator: package \<open>kubectl\<close> on a command runner\<close>

text \<open>
  Package \<open>kubectl\<close> and the runner behind it are outside the verified file; they are a
  parameter of the model. The cluster is stateful (a deleted pod is gone afterwards), so
  the answer of every operation may depend on the calls made before it: each operation
  is a function of the list of earlier calls (oldest first) and of its arguments, and
  making a call appends it to that list. The list is the only state the verifier
  threads; a function that returns it unchanged has made no call.
  \<open>IsPod\<close> classifies a kind string and does not use the runner.
\<close>

datatype call =
    RunCall "string list" string string
  | IsResourceDeployedCall string string string string
  | GetRunningPodsCall string string
  | GetOldestRunningPodCall string string
  | GetPodNodesCall string string
  | DeletePodCall string string
  | ArePodsRunningCall string string

record KubeRunner =
  IsPod :: "string \<Rightarrow> bool"
  Run :: "call list \<Rightarrow> string list \<Rightarrow> string \<Rightarrow> string \<Rightarrow> string \<times> error option"
  IsResourceDeployed ::
    "call list \<Rightarrow> string \<Rightarrow> string \<Rightarrow> string \<Rightarrow> string \<Rightarrow> bool \<times> error option"
  GetRunningPods :: "call list \<Rightarrow> string \<Rightarrow> string \<Rightarrow> string list \<times> error option"
  GetOldestRunningPod :: "call list \<Rightarrow> string \<Rightarrow> string \<Rightarrow> string \<times> error option"
  GetPodNodes :: "call list \<Rightarrow> string \<Rightarrow> string \<Rightarrow> string list \<times> error option"
  DeletePod :: "call list \<Rightarrow> string \<Rightarrow> string \<Rightarrow> error option"
  ArePodsRunning :: "call list \<Rightarrow> string \<Rightarrow> string \<Rightarrow> bool \<times> error option"

text \<open>
  The two verifiers. Both structs name their runner \<open>kubectl\<close>; the unqualified
  \<open>kubectl\<close> below is the field of \<open>KubeInstallVerify\<close>, which also holds a pointer to
  the installation, nil or not. The runner itself is taken to be present.
\<close>

record KubeConnectionVerify =
  kubectl :: KubeRunner

record KubeInstallVerify =
  installation :: "Installation option"
  kubectl :: KubeRunner

text \<open>
  A method either returns or panics: \<open>v.installation.Components\<close> dereferences the
  pointer, and Go panics when it is nil.
\<close>

datatype 'a outcome = Returns 'a | Panics

section \<open>Loading the descriptor\<close>

text \<open>
  \<open>ioutil.ReadFile\<close> and \<open>yaml.Unmarshal\<close> belong to libraries; they are parameters.
  \<open>yaml.Unmarshal\<close> fills the installation it is given and returns an error or nil.
\<close>

type_synonym ReadFile = "string \<Rightarrow> string \<times> error option"
type_synonym Unmarshal = "string \<Rightarrow> Installation \<Rightarrow> Installation \<times> error option"

definition unmarshal :: "Unmarshal \<Rightarrow> string \<Rightarrow> Installation option \<times> error option" where
  "unmarshal yamlUnmarshal data =
     (case yamlUnmarshal data zeroInstallation of
        (inst, err) \<Rightarrow> (Some inst, err))"

definition load ::
  "ReadFile \<Rightarrow> Unmarshal \<Rightarrow> string \<Rightarrow> Installation option \<times> error option" where
  "load readFile yamlUnmarshal file =
     (if length file = 0 then (None, Some VerifyFileNotProvided)
      else (case readFile file of
              (d, err) \<Rightarrow>
                if err \<noteq> None then (None, err)
                else unmarshal yamlUnmarshal d))"

definition NewKubeInstallVerify ::
  "ReadFile \<Rightarrow> Unmarshal \<Rightarrow> KubeRunner \<Rightarrow> string \<Rightarrow> KubeInstallVerify option \<times> error option" where
  "NewKubeInstallVerify readFile yamlUnmarshal r file =
     (case load readFile yamlUnmarshal file of
        (i, err) \<Rightarrow>
          if err \<noteq> None then (None, err)
          else (Some \<lparr>installation = i, kubectl = r\<rparr>, None))"

section \<open>The verifier\<close>

definition isComponentDeployed ::
  "KubeInstallVerify \<Rightarrow> Component \<Rightarrow> call list \<Rightarrow> (bool \<times> error option) \<times> call list" where
  "isComponentDeployed v component h =
     (IsResourceDeployed (kubectl v) h
        (Kind component) (Name component) (Namespace component) (Labels component),
      h @ [IsResourceDeployedCall
             (Kind component) (Name component) (Namespace component) (Labels component)])"

definition isPodComponentRunning ::
  "KubeInstallVerify \<Rightarrow> Component \<Rightarrow> call list \<Rightarrow> (bool \<times> error option) \<times> call list" where
  "isPodComponentRunning v component h =
     (let err = (if length (TrimSpace (Kind component)) = 0 then Some KindRequired else None)
      in if \<not> IsPod (kubectl v) (Kind component) then ((True, err), h)
         else if length (TrimSpace (Labels component)) = 0
           then ((False, Some (LabelsRequired (Kind component))), h)
         else (ArePodsRunning (kubectl v) h (Namespace component) (Labels component),
               h @ [ArePodsRunningCall (Namespace component) (Labels component)]))"

text \<open>
  The loops of \<open>IsDeployed\<close> and \<open>IsRunning\<close>: the named results \<open>yes\<close> and \<open>err\<close> are
  the loop's state, overwritten by every iteration; the loop breaks when \<open>err\<close> is not nil.
\<close>

fun IsDeployed_loop ::
  "KubeInstallVerify \<Rightarrow> Component list \<Rightarrow> bool \<times> error option \<Rightarrow> call list
     \<Rightarrow> (bool \<times> error option) \<times> call list" where
  "IsDeployed_loop v [] r h = (r, h)"
| "IsDeployed_loop v (component # rest) r h =
     (case isComponentDeployed v component h of
        ((yes, err), h') \<Rightarrow>
          if err \<noteq> None then ((yes, err), h')
          else IsDeployed_loop v rest (yes, err) h')"

definition IsDeployed ::
  "KubeInstallVerify \<Rightarrow> call list \<Rightarrow> (bool \<times> error option) \<times> call list" where
  "IsDeployed v h =
     (case installation v of
        None \<Rightarrow> ((False, Some (InstallationNil ''IsDeployed'')), h)
      | Some i \<Rightarrow> IsDeployed_loop v (Components i) (False, None) h)"

fun IsRunning_loop ::
  "KubeInstallVerify \<Rightarrow> Component list \<Rightarrow> bool \<times> error option \<Rightarrow> call list
     \<Rightarrow> (bool \<times> error option) \<times> call list" where
  "IsRunning_loop v [] r h = (r, h)"
| "IsRunning_loop v (component # rest) r h =
     (case isPodComponentRunning v component h of
        ((yes, err), h') \<Rightarrow>
          if err \<noteq> None then ((yes, err), h')
          else IsRunning_loop v rest (yes, err) h')"

definition IsRunning ::
  "KubeInstallVerify \<Rightarrow> call list \<Rightarrow> (bool \<times> error option) \<times> call list" where
  "IsRunning v h =
     (case installation v of
        None \<Rightarrow> ((False, Some (InstallationNil ''IsRunning'')), h)
      | Some i \<Rightarrow> IsRunning_loop v (Components i) (False, None) h)"

text \<open>
  \<open>getMatchingPodComponent\<close> makes no call. On an error it returns the zero component.
\<close>

definition getMatchingPodComponent ::
  "KubeInstallVerify \<Rightarrow> string \<Rightarrow> (Component \<times> error option) outcome" where
  "getMatchingPodComponent v alias =
     (case installation v of
        None \<Rightarrow> Panics
      | Some i \<Rightarrow>
          (let filtered =
                 filter (\<lambda>c. Alias c = alias \<and> IsPod (kubectl v) (Kind c)) (Components i)
           in if length filtered = 0 then Returns (zeroComponent, Some (ComponentNotFound alias))
              else if length filtered > 1
                then Returns (zeroComponent, Some (MultipleComponents alias))
              else Returns (filtered ! 0, None)))"

definition isDeleteAnyRunningPod ::
  "KubeInstallVerify \<Rightarrow> string \<Rightarrow> call list \<Rightarrow> (bool \<times> error option) outcome \<times> call list" where
  "isDeleteAnyRunningPod v alias h =
     (case getMatchingPodComponent v alias of
        Panics \<Rightarrow> (Panics, h)
      | Returns (c, err) \<Rightarrow>
          if err \<noteq> None then (Returns (False, err), h)
          else if length (TrimSpace (Labels c)) = 0
            then (Returns (False, Some (LabelsMissing (Kind c) alias)), h)
          else (case GetRunningPods (kubectl v) h (Namespace c) (Labels c) of
                  (pods, err) \<Rightarrow>
                    (let h1 = h @ [GetRunningPodsCall (Namespace c) (Labels c)]
                     in if err \<noteq> None then (Returns (False, err), h1)
                        else if length pods = 0
                          then (Returns (False, Some (RunningPodsNotFound alias)), h1)
                        else (let err = DeletePod (kubectl v) h1 (pods ! 0) (Namespace c);
                                  h2 = h1 @ [DeletePodCall (pods ! 0) (Namespace c)]
                              in if err \<noteq> None then (Returns (False, err), h2)
                                 else (Returns (True, None), h2)))))"

definition isDeleteOldestRunningPod ::
  "KubeInstallVerify \<Rightarrow> string \<Rightarrow> call list \<Rightarrow> (bool \<times> error option) outcome \<times> call list" where
  "isDeleteOldestRunningPod v alias h =
     (case getMatchingPodComponent v alias of
        Panics \<Rightarrow> (Panics, h)
      | Returns (c, err) \<Rightarrow>
          if err \<noteq> None then (Returns (False, err), h)
          else if length (TrimSpace (Labels c)) = 0
            then (Returns (False, Some (LabelsMissing (Kind c) alias)), h)
          else (case GetOldestRunningPod (kubectl v) h (Namespace c) (Labels c) of
                  (pod, err) \<Rightarrow>
                    (let h1 = h @ [GetOldestRunningPodCall (Namespace c) (Labels c)]
                     in if err \<noteq> None then (Returns (False, err), h1)
                        else if length pod = 0
                          then (Returns (False, Some (OldestPodNotFound alias)), h1)
                        else (let err = DeletePod (kubectl v) h1 pod (Namespace c);
                                  h2 = h1 @ [DeletePodCall pod (Namespace c)]
                              in if err \<noteq> None then (Returns (False, err), h2)
                                 else (Returns (True, None), h2)))))"

text \<open>
  \<open>isEachComponentOnUniqueNode\<close>: the second loop collects the nodes of the filtered
  components and returns early on an error (\<open>Inl\<close>); the third scans the collected nodes
  with the map \<open>exists\<close> of the nodes seen so far.
\<close>

fun nodes_loop ::
  "KubeInstallVerify \<Rightarrow> Component list \<Rightarrow> string list \<Rightarrow> call list
     \<Rightarrow> (error + string list) \<times> call list" where
  "nodes_loop v [] nodes h = (Inr nodes, h)"
| "nodes_loop v (f # rest) nodes h =
     (if \<not> IsPod (kubectl v) (Kind f) then nodes_loop v rest nodes h
      else if length (TrimSpace (Labels f)) = 0 then (Inl (NodeLabelsRequired (Kind f)), h)
      else (case GetPodNodes (kubectl v) h (Namespace f) (Labels f) of
              (n, err) \<Rightarrow>
                (case err of
                   Some e \<Rightarrow> (Inl e, h @ [GetPodNodesCall (Namespace f) (Labels f)])
                 | None \<Rightarrow>
                     nodes_loop v rest (nodes @ n)
                       (h @ [GetPodNodesCall (Namespace f) (Labels f)]))))"

fun exists_loop :: "(string \<rightharpoonup> string) \<Rightarrow> string list \<Rightarrow> bool" where
  "exists_loop exists [] = True"
| "exists_loop exists (n # rest) =
     (case exists n of
        Some _ \<Rightarrow> False
      | None \<Rightarrow> exists_loop (exists(n \<mapsto> ''tracked'')) rest)"

definition isEachComponentOnUniqueNode ::
  "KubeInstallVerify \<Rightarrow> string \<Rightarrow> call list \<Rightarrow> (bool \<times> error option) outcome \<times> call list" where
  "isEachComponentOnUniqueNode v alias h =
     (case installation v of
        None \<Rightarrow> (Panics, h)
      | Some i \<Rightarrow>
          (let filtered = filter (\<lambda>c. Alias c = alias) (Components i)
           in case nodes_loop v filtered [] h of
                (Inl e, h') \<Rightarrow> (Returns (False, Some e), h')
              | (Inr nodes, h') \<Rightarrow> (Returns (exists_loop Map.empty nodes, None), h')))"

definition IsCondition ::
  "KubeInstallVerify \<Rightarrow> string \<Rightarrow> string \<Rightarrow> call list
     \<Rightarrow> (bool \<times> error option) outcome \<times> call list" where
  "IsCondition v alias condition h =
     (if condition = ''unique-node'' then isEachComponentOnUniqueNode v alias h
      else (Returns (False, Some (ConditionNotSupported condition)), h))"

definition IsAction ::
  "KubeInstallVerify \<Rightarrow> string \<Rightarrow> string \<Rightarrow> call list
     \<Rightarrow> (bool \<times> error option) outcome \<times> call list" where
  "IsAction v alias action h =
     (if action = ''delete-any-pod'' then isDeleteAnyRunningPod v alias h
      else if action = ''delete-oldest-pod'' then isDeleteOldestRunningPod v alias h
      else (Returns (False, Some (ActionNotSupported action)), h))"

definition IsConnected ::
  "KubeConnectionVerify \<Rightarrow> call list \<Rightarrow> (bool \<times> error option) \<times> call list" where
  "IsConnected k h =
     (case Run (KubeConnectionVerify.kubectl k) h [''get'', ''pods''] [] [] of
        (out, err) \<Rightarrow> ((err = None, err), h @ [RunCall [''get'', ''pods''] [] []]))"


section \<open>The queries a loop makes, in order\<close>

text \<open>
  The statements below name the answer that the collaborator gives to the query for the
  \<open>j\<close>-th component of a list, at the moment the loop makes it: after the queries for
  the components before it. These definitions belong to the statements, not to the
  program.
\<close>

definition deployedCall :: "Component \<Rightarrow> call" where
  "deployedCall c = IsResourceDeployedCall (Kind c) (Name c) (Namespace c) (Labels c)"

definition deployedAt ::
  "KubeInstallVerify \<Rightarrow> call list \<Rightarrow> Component list \<Rightarrow> nat \<Rightarrow> bool \<times> error option" where
  "deployedAt v h cs j =
     IsResourceDeployed (kubectl v) (h @ map deployedCall (take j cs))
       (Kind (cs ! j)) (Name (cs ! j)) (Namespace (cs ! j)) (Labels (cs ! j))"

text \<open>The components that are of pod kind and carry the alias, in the installation's order.\<close>

definition aliasPods :: "KubeInstallVerify \<Rightarrow> string \<Rightarrow> Component list \<Rightarrow> Component list" where
  "aliasPods v alias cs = filter (\<lambda>c. Alias c = alias \<and> IsPod (kubectl v) (Kind c)) cs"

definition podNodesCall :: "Component \<Rightarrow> call" where
  "podNodesCall c = GetPodNodesCall (Namespace c) (Labels c)"

definition podNodesAt ::
  "KubeInstallVerify \<Rightarrow> call list \<Rightarrow> Component list \<Rightarrow> nat \<Rightarrow> string list \<times> error option" where
  "podNodesAt v h ps j =
     GetPodNodes (kubectl v) (h @ map podNodesCall (take j ps))
       (Namespace (ps ! j)) (Labels (ps ! j))"

text \<open>The \<open>j\<close>-th pod component has labels and its node query returns no error.\<close>

definition podNodesOk :: "KubeInstallVerify \<Rightarrow> call list \<Rightarrow> Component list \<Rightarrow> nat \<Rightarrow> bool" where
  "podNodesOk v h ps j \<longleftrightarrow>
     length (TrimSpace (Labels (ps ! j))) \<noteq> 0 \<and> snd (podNodesAt v h ps j) = None"

text \<open>The node names reported for the pod components, concatenated in order.\<close>

definition reportedNodes :: "KubeInstallVerify \<Rightarrow> call list \<Rightarrow> Component list \<Rightarrow> string list" where
  "reportedNodes v h ps = concat (map (\<lambda>j. fst (podNodesAt v h ps j)) [0..<length ps])"

section \<open>An example cluster\<close>

text \<open>
  A runner for the concrete instances: the kind \<open>pod\<close> is the pod kind; the resource
  named \<open>absent\<close> is not deployed and the query for the one named \<open>broken\<close> fails; the
  oldest running pod is \<open>db-0\<close> until it has been deleted; the pods labelled \<open>app=db2\<close>
  run on node \<open>B\<close>, all others on node \<open>A\<close>; queries with the labels \<open>app=down\<close> fail,
  and nothing can be deleted in the namespace \<open>locked\<close>.
\<close>

definition exampleRunner :: KubeRunner where
  "exampleRunner =
     \<lparr>IsPod = (\<lambda>kind. kind = ''pod''),
      Run = (\<lambda>h args ns ctx. ([], None)),
      IsResourceDeployed =
        (\<lambda>h kind name ns labels.
           (name \<noteq> ''absent'',
            if name = ''broken'' then Some (External ''connection refused'') else None)),
      GetRunningPods = (\<lambda>h ns labels. ([''db-0'', ''db-1''], None)),
      GetOldestRunningPod =
        (\<lambda>h ns labels.
           (if DeletePodCall ''db-0'' ns \<in> set h then [] else ''db-0'',
            if labels = ''app=down'' then Some (External ''timeout'') else None)),
      GetPodNodes =
        (\<lambda>h ns labels.
           (if labels = ''app=db2'' then [''B''] else [''A''],
            if labels = ''app=down'' then Some (External ''timeout'') else None)),
      DeletePod =
        (\<lambda>h pod ns. if ns = ''locked'' then Some (External ''forbidden'') else None),
      ArePodsRunning = (\<lambda>h ns labels. (True, None))\<rparr>"

definition exampleComponent :: "string \<Rightarrow> string \<Rightarrow> string \<Rightarrow> string \<Rightarrow> string \<Rightarrow> Component" where
  "exampleComponent name ns kind labels alias =
     \<lparr>Name = name, Namespace = ns, Kind = kind, APIVersion = ''v1'', Labels = labels,
      Alias = alias\<rparr>"

definition exampleInstallation :: "Component list \<Rightarrow> Installation" where
  "exampleInstallation cs = \<lparr>VerifyID = ''mysql'', Version = ''1'', Components = cs\<rparr>"

definition exampleVerify :: "Component list \<Rightarrow> KubeInstallVerify" where
  "exampleVerify cs = \<lparr>installation = Some (exampleInstallation cs), kubectl = exampleRunner\<rparr>"

definition exampleReadFile :: ReadFile where
  "exampleReadFile file = (''verifyID: mysql'', None)"

definition exampleUnmarshal :: Unmarshal where
  "exampleUnmarshal data inst = (inst, None)"

section \<open>White space\<close>

lemma TrimSpace_Nil: "TrimSpace [] = []"
  by (simp add: TrimSpace_def TrimLeft.simps TrimRight.simps firstSpace_def lastSpace_def)

text \<open>A string of ASCII white space only is trimmed to the empty string.\<close>

lemma TrimLeft_asciiSpace: "\<forall>c\<in>set s. asciiSpace c \<Longrightarrow> TrimLeft s = []"
proof (induction s)
  case Nil
  show ?case by (subst TrimLeft.simps) (simp add: firstSpace_def)
next
  case (Cons c s)
  then have "firstSpace (c # s) = 1" by (simp add: firstSpace_def)
  then have "TrimLeft (c # s) = TrimLeft s" by (subst TrimLeft.simps) simp
  then show ?case using Cons by simp
qed

lemma TrimSpace_asciiSpace: "\<forall>c\<in>set s. asciiSpace c \<Longrightarrow> TrimSpace s = []"
proof -
  assume "\<forall>c\<in>set s. asciiSpace c"
  then have "TrimLeft s = []" by (rule TrimLeft_asciiSpace)
  moreover have "TrimRight [] = []" by (subst TrimRight.simps) (simp add: lastSpace_def)
  ultimately show ?thesis by (simp add: TrimSpace_def)
qed

lemma TrimSpace_blanks: "TrimSpace '' '' = []" "TrimSpace ''  '' = []"
  by (simp_all add: TrimSpace_asciiSpace asciiSpace_def)

lemma TrimSpace_labels:
  "TrimSpace ''app=db1'' = ''app=db1''" "TrimSpace ''app=db2'' = ''app=db2''"
  "TrimSpace ''app=down'' = ''app=down''"
  by code_simp+

lemmas example_defs =
  exampleRunner_def exampleComponent_def exampleInstallation_def exampleVerify_def aliasPods_def

section \<open>IsDeployed\<close>

lemma isComponentDeployed_at:
  "isComponentDeployed v c h = (deployedAt v h (c # cs) 0, h @ [deployedCall c])"
  by (simp add: isComponentDeployed_def deployedAt_def deployedCall_def)

lemma deployedAt_Suc:
  "deployedAt v h (c # cs) (Suc j) = deployedAt v (h @ [deployedCall c]) cs j"
  by (simp add: deployedAt_def)

lemma IsDeployed_loop_ok:
  "\<forall>j<length cs. snd (deployedAt v h cs j) = None \<Longrightarrow>
   IsDeployed_loop v cs r h =
     ((if cs = [] then r else (fst (deployedAt v h cs (length cs - 1)), None)),
      h @ map deployedCall cs)"
proof (induction cs arbitrary: r h)
  case Nil
  then show ?case by simp
next
  case (Cons c cs)
  from Cons.prems have hd: "snd (deployedAt v h (c # cs) 0) = None"
    by auto
  from Cons.prems have tl: "\<forall>j<length cs. snd (deployedAt v (h @ [deployedCall c]) cs j) = None"
    by (auto simp: deployedAt_Suc [symmetric])
  have last: "cs \<noteq> [] \<Longrightarrow>
      deployedAt v (h @ [deployedCall c]) cs (length cs - 1) = deployedAt v h (c # cs) (length cs)"
    using deployedAt_Suc [of v h c cs "length cs - 1"] by simp
  obtain yes where yes: "deployedAt v h (c # cs) 0 = (yes, None)"
    using hd by (cases "deployedAt v h (c # cs) 0") auto
  show ?case
    using Cons.IH [OF tl, of "(yes, None)"] yes last
    by (cases "cs = []") (simp_all add: isComponentDeployed_at [of v c h cs])
qed

lemma IsDeployed_loop_error:
  "j < length cs \<Longrightarrow> \<forall>j'<j. snd (deployedAt v h cs j') = None \<Longrightarrow>
   snd (deployedAt v h cs j) \<noteq> None \<Longrightarrow>
   IsDeployed_loop v cs r h = (deployedAt v h cs j, h @ map deployedCall (take (Suc j) cs))"
proof (induction cs arbitrary: j r h)
  case Nil
  then show ?case by simp
next
  case (Cons c cs)
  show ?case
  proof (cases j)
    case 0
    then show ?thesis
      using Cons.prems
      by (cases "deployedAt v h (c # cs) 0") (auto simp: isComponentDeployed_at [of v c h cs])
  next
    case (Suc j')
    from Cons.prems Suc have hd: "snd (deployedAt v h (c # cs) 0) = None"
      by auto
    obtain yes where yes: "deployedAt v h (c # cs) 0 = (yes, None)"
      using hd by (cases "deployedAt v h (c # cs) 0") auto
    have a: "j' < length cs" using Cons.prems Suc by simp
    have b: "\<forall>k<j'. snd (deployedAt v (h @ [deployedCall c]) cs k) = None"
    proof (intro allI impI)
      fix k assume "k < j'"
      then have "Suc k < j" using Suc by simp
      then have "snd (deployedAt v h (c # cs) (Suc k)) = None" using Cons.prems by blast
      then show "snd (deployedAt v (h @ [deployedCall c]) cs k) = None"
        by (simp add: deployedAt_Suc)
    qed
    have c: "snd (deployedAt v (h @ [deployedCall c]) cs j') \<noteq> None"
      using Cons.prems Suc by (simp add: deployedAt_Suc)
    show ?thesis
      using Cons.IH [OF a b c, of "(yes, None)"] yes Suc
      by (simp add: isComponentDeployed_at [of v c h cs] deployedAt_Suc)
  qed
qed

text \<open>
  Claim C1. With an installation present, \<open>IsDeployed\<close> queries the components in order.
  When no query returns an error and there is a component, it has queried them all and
  returns the boolean of the last query, whatever the earlier ones answered (it is not
  their conjunction). When the query for component \<open>j\<close> is the first to return an error,
  it returns that query's result, error included, and has made no query after it.
\<close>

theorem IsDeployed_last_observed:
  assumes "installation v = Some i" and "cs = Components i"
  shows
    "(cs \<noteq> [] \<and> (\<forall>j<length cs. snd (deployedAt v h cs j) = None) \<longrightarrow>
        IsDeployed v h =
          ((fst (deployedAt v h cs (length cs - 1)), None), h @ map deployedCall cs)) \<and>
     (\<forall>j<length cs.
        (\<forall>j'<j. snd (deployedAt v h cs j') = None) \<and> snd (deployedAt v h cs j) \<noteq> None \<longrightarrow>
        IsDeployed v h = (deployedAt v h cs j, h @ map deployedCall (take (Suc j) cs)))"
  using assms
  by (simp add: IsDeployed_def IsDeployed_loop_ok IsDeployed_loop_error)

text \<open>
  Instances: a resource that is absent followed by one that is present gives true, where
  the conjunction is false; present followed by absent gives false; an error at the second
  of three components stops the loop there.
\<close>

theorem IsDeployed_last_observed_witness:
  "IsDeployed
     (exampleVerify
        [exampleComponent ''absent'' ''default'' ''service'' [] ''svc'',
         exampleComponent ''db'' ''default'' ''pod'' ''app=db1'' ''db'']) [] =
     ((True, None),
      [IsResourceDeployedCall ''service'' ''absent'' ''default'' [],
       IsResourceDeployedCall ''pod'' ''db'' ''default'' ''app=db1'']) \<and>
   IsDeployed
     (exampleVerify
        [exampleComponent ''db'' ''default'' ''pod'' ''app=db1'' ''db'',
         exampleComponent ''absent'' ''default'' ''service'' [] ''svc'']) [] =
     ((False, None),
      [IsResourceDeployedCall ''pod'' ''db'' ''default'' ''app=db1'',
       IsResourceDeployedCall ''service'' ''absent'' ''default'' []]) \<and>
   IsDeployed
     (exampleVerify
        [exampleComponent ''db'' ''default'' ''pod'' ''app=db1'' ''db'',
         exampleComponent ''broken'' ''default'' ''service'' [] ''svc'',
         exampleComponent ''absent'' ''default'' ''service'' [] ''svc'']) [] =
     ((True, Some (External ''connection refused'')),
      [IsResourceDeployedCall ''pod'' ''db'' ''default'' ''app=db1'',
       IsResourceDeployedCall ''service'' ''broken'' ''default'' []])"
proof (intro conjI)
  let ?a = "exampleComponent ''absent'' ''default'' ''service'' [] ''svc''"
  let ?d = "exampleComponent ''db'' ''default'' ''pod'' ''app=db1'' ''db''"
  let ?b = "exampleComponent ''broken'' ''default'' ''service'' [] ''svc''"
  show "IsDeployed (exampleVerify [?a, ?d]) [] =
     ((True, None),
      [IsResourceDeployedCall ''service'' ''absent'' ''default'' [],
       IsResourceDeployedCall ''pod'' ''db'' ''default'' ''app=db1''])"
    using IsDeployed_last_observed
      [of "exampleVerify [?a, ?d]" "exampleInstallation [?a, ?d]" "[?a, ?d]" "[]"]
    by (simp add: example_defs deployedAt_def deployedCall_def less_Suc_eq)
  show "IsDeployed (exampleVerify [?d, ?a]) [] =
     ((False, None),
      [IsResourceDeployedCall ''pod'' ''db'' ''default'' ''app=db1'',
       IsResourceDeployedCall ''service'' ''absent'' ''default'' []])"
    using IsDeployed_last_observed
      [of "exampleVerify [?d, ?a]" "exampleInstallation [?d, ?a]" "[?d, ?a]" "[]"]
    by (simp add: example_defs deployedAt_def deployedCall_def less_Suc_eq)
  show "IsDeployed (exampleVerify [?d, ?b, ?a]) [] =
     ((True, Some (External ''connection refused'')),
      [IsResourceDeployedCall ''pod'' ''db'' ''default'' ''app=db1'',
       IsResourceDeployedCall ''service'' ''broken'' ''default'' []])"
    using IsDeployed_last_observed
      [of "exampleVerify [?d, ?b, ?a]" "exampleInstallation [?d, ?b, ?a]" "[?d, ?b, ?a]" "[]",
       THEN conjunct2, THEN spec, of 1]
    by (simp add: example_defs deployedAt_def deployedCall_def)
qed

section \<open>The unique-node condition\<close>

lemma exists_loop_distinct:
  "exists_loop exists ns \<longleftrightarrow> distinct ns \<and> set ns \<inter> dom exists = {}"
  by (induction ns arbitrary: exists) (auto split: option.splits)

text \<open>
  The scan returns at the first name it has seen before: what follows that name in the
  list does not change the result.
\<close>

lemma exists_loop_first_duplicate:
  "n \<in> set pre \<Longrightarrow> exists_loop exists (pre @ n # post) = False"
  by (simp add: exists_loop_distinct)

lemma podNodesAt_Suc:
  "podNodesAt v h (p # ps) (Suc j) = podNodesAt v (h @ [podNodesCall p]) ps j"
  by (simp add: podNodesAt_def)

lemma podNodesOk_Suc:
  "podNodesOk v h (p # ps) (Suc j) = podNodesOk v (h @ [podNodesCall p]) ps j"
  by (simp add: podNodesOk_def podNodesAt_Suc)

lemma reportedNodes_Cons:
  "reportedNodes v h (p # ps) =
     fst (podNodesAt v h (p # ps) 0) @ reportedNodes v (h @ [podNodesCall p]) ps"
  by (simp add: reportedNodes_def map_upt_Suc podNodesAt_Suc del: upt_Suc)

lemma nodes_loop_ok:
  "ps = filter (\<lambda>c. IsPod (kubectl v) (Kind c)) fs \<Longrightarrow>
   \<forall>j<length ps. podNodesOk v h ps j \<Longrightarrow>
   nodes_loop v fs nodes h = (Inr (nodes @ reportedNodes v h ps), h @ map podNodesCall ps)"
proof (induction fs arbitrary: ps nodes h)
  case Nil
  then show ?case by (simp add: reportedNodes_def)
next
  case (Cons f fs)
  show ?case
  proof (cases "IsPod (kubectl v) (Kind f)")
    case False
    then show ?thesis using Cons by simp
  next
    case True
    define ps' where "ps' = filter (\<lambda>c. IsPod (kubectl v) (Kind c)) fs"
    have ps: "ps = f # ps'" using Cons.prems True by (simp add: ps'_def)
    have all: "\<forall>j<length (f # ps'). podNodesOk v h (f # ps') j"
      using Cons.prems(2) unfolding ps by simp
    have ok0: "podNodesOk v h (f # ps') 0" using all by auto
    have tl: "\<forall>j<length ps'. podNodesOk v (h @ [podNodesCall f]) ps' j"
      using all by (auto simp: podNodesOk_Suc [symmetric])
    obtain n where n: "podNodesAt v h (f # ps') 0 = (n, None)"
      using ok0 by (cases "podNodesAt v h (f # ps') 0") (auto simp: podNodesOk_def)
    then have g: "GetPodNodes (kubectl v) h (Namespace f) (Labels f) = (n, None)"
      by (simp add: podNodesAt_def)
    have lab: "length (TrimSpace (Labels f)) \<noteq> 0"
      using ok0 by (simp add: podNodesOk_def)
    show ?thesis
      using Cons.IH [OF ps'_def tl, of "nodes @ n"] True g lab n
      by (simp add: ps reportedNodes_Cons podNodesCall_def)
  qed
qed

lemma nodes_loop_fail:
  "ps = filter (\<lambda>c. IsPod (kubectl v) (Kind c)) fs \<Longrightarrow> j < length ps \<Longrightarrow>
   \<forall>j'<j. podNodesOk v h ps j' \<Longrightarrow> \<not> podNodesOk v h ps j \<Longrightarrow>
   \<exists>e h'. nodes_loop v fs nodes h = (Inl e, h')"
proof (induction fs arbitrary: ps j nodes h)
  case Nil
  then show ?case by simp
next
  case (Cons f fs)
  show ?case
  proof (cases "IsPod (kubectl v) (Kind f)")
    case False
    then show ?thesis using Cons by simp
  next
    case True
    define ps' where "ps' = filter (\<lambda>c. IsPod (kubectl v) (Kind c)) fs"
    have ps: "ps = f # ps'" using Cons.prems True by (simp add: ps'_def)
    have len: "j < length (f # ps')" using Cons.prems(2) unfolding ps by simp
    have before: "\<forall>k<j. podNodesOk v h (f # ps') k" using Cons.prems(3) unfolding ps by simp
    have at: "\<not> podNodesOk v h (f # ps') j" using Cons.prems(4) unfolding ps by simp
    show ?thesis
    proof (cases j)
      case 0
      then have "\<not> podNodesOk v h (f # ps') 0" using at by simp
      then show ?thesis
        using True
        by (cases "GetPodNodes (kubectl v) h (Namespace f) (Labels f)")
           (auto simp: podNodesOk_def podNodesAt_def split: option.splits)
    next
      case (Suc j')
      have ok0: "podNodesOk v h (f # ps') 0" using before Suc by auto
      obtain n where n: "podNodesAt v h (f # ps') 0 = (n, None)"
        using ok0 by (cases "podNodesAt v h (f # ps') 0") (auto simp: podNodesOk_def)
      then have g: "GetPodNodes (kubectl v) h (Namespace f) (Labels f) = (n, None)"
        by (simp add: podNodesAt_def)
      have lab: "length (TrimSpace (Labels f)) \<noteq> 0"
        using ok0 by (simp add: podNodesOk_def)
      have a: "j' < length ps'" using len Suc by simp
      have b: "\<forall>k<j'. podNodesOk v (h @ [podNodesCall f]) ps' k"
      proof (intro allI impI)
        fix k assume "k < j'"
        then have "Suc k < j" using Suc by simp
        then have "podNodesOk v h (f # ps') (Suc k)" using before by blast
        then show "podNodesOk v (h @ [podNodesCall f]) ps' k"
          by (simp add: podNodesOk_Suc)
      qed
      have c: "\<not> podNodesOk v (h @ [podNodesCall f]) ps' j'"
        using at Suc by (simp add: podNodesOk_Suc)
      show ?thesis
        using Cons.IH [OF ps'_def a b c, of "nodes @ n"] True g lab
        by (simp add: podNodesCall_def)
    qed
  qed
qed

text \<open>
  Claim C2, as amended. With an installation present, the check returns \<open>(true, nil)\<close>
  exactly when every pod component with the alias has labels, each of their node queries
  returns no error, and the concatenated node names hold no duplicate. When the queries
  all succeed, the result is \<open>(b, nil)\<close> with \<open>b\<close> saying that no name is duplicated, and
  the calls made are the node queries of the pod components with the alias, in order:
  components of another kind are skipped. When a pod component with the alias has no
  labels or its node query returns an error, the check returns \<open>false\<close> with an error.
\<close>

theorem unique_node_condition:
  assumes "installation v = Some i" and "ps = aliasPods v alias (Components i)"
  shows
    "(fst (IsCondition v alias ''unique-node'' h) = Returns (True, None) \<longleftrightarrow>
        (\<forall>j<length ps. podNodesOk v h ps j) \<and> distinct (reportedNodes v h ps)) \<and>
     ((\<forall>j<length ps. podNodesOk v h ps j) \<longrightarrow>
        IsCondition v alias ''unique-node'' h =
          (Returns (distinct (reportedNodes v h ps), None), h @ map podNodesCall ps)) \<and>
     (\<not> (\<forall>j<length ps. podNodesOk v h ps j) \<longrightarrow>
        (\<exists>e h'. IsCondition v alias ''unique-node'' h = (Returns (False, Some e), h')))"
proof -
  let ?fs = "filter (\<lambda>c. Alias c = alias) (Components i)"
  have ps: "ps = filter (\<lambda>c. IsPod (kubectl v) (Kind c)) ?fs"
    using assms by (simp add: aliasPods_def)
  have ok: "IsCondition v alias ''unique-node'' h =
      (Returns (distinct (reportedNodes v h ps), None), h @ map podNodesCall ps)"
    if "\<forall>j<length ps. podNodesOk v h ps j"
    using nodes_loop_ok [OF ps that, of "[]"] assms
    by (simp add: IsCondition_def isEachComponentOnUniqueNode_def exists_loop_distinct)
  have fail: "\<exists>e h'. IsCondition v alias ''unique-node'' h = (Returns (False, Some e), h')"
    if "\<not> (\<forall>j<length ps. podNodesOk v h ps j)"
  proof -
    from that have "\<exists>j. j < length ps \<and> \<not> podNodesOk v h ps j" by blast
    then obtain j where j: "j < length ps \<and> \<not> podNodesOk v h ps j"
      and least: "\<forall>k<j. \<not> (k < length ps \<and> \<not> podNodesOk v h ps k)"
      using exists_least_iff [of "\<lambda>j. j < length ps \<and> \<not> podNodesOk v h ps j"] by blast
    have "\<forall>k<j. podNodesOk v h ps k" using least j by auto
    then obtain e h' where "nodes_loop v ?fs [] h = (Inl e, h')"
      using nodes_loop_fail [OF ps, of j h "[]"] j by blast
    then show ?thesis
      using assms by (simp add: IsCondition_def isEachComponentOnUniqueNode_def)
  qed
  show ?thesis
  proof (cases "\<forall>j<length ps. podNodesOk v h ps j")
    case True
    then show ?thesis using ok by simp
  next
    case False
    then obtain e h' where "IsCondition v alias ''unique-node'' h = (Returns (False, Some e), h')"
      using fail by blast
    then show ?thesis using False by simp
  qed
qed

text \<open>
  The instances of the specification: two pod components with the alias \<open>db\<close>, one on
  node A and one on node B (a service with the same alias between them is skipped), and
  two both on node A.
\<close>

theorem unique_node_condition_witness:
  "IsCondition
     (exampleVerify
        [exampleComponent ''db1'' ''default'' ''pod'' ''app=db1'' ''db'',
         exampleComponent ''db-svc'' ''default'' ''service'' [] ''db'',
         exampleComponent ''db2'' ''default'' ''pod'' ''app=db2'' ''db''])
     ''db'' ''unique-node'' [] =
     (Returns (True, None),
      [GetPodNodesCall ''default'' ''app=db1'', GetPodNodesCall ''default'' ''app=db2'']) \<and>
   IsCondition
     (exampleVerify
        [exampleComponent ''db1'' ''default'' ''pod'' ''app=db1'' ''db'',
         exampleComponent ''db2'' ''default'' ''pod'' ''app=db1'' ''db''])
     ''db'' ''unique-node'' [] =
     (Returns (False, None),
      [GetPodNodesCall ''default'' ''app=db1'', GetPodNodesCall ''default'' ''app=db1''])"
proof (intro conjI)
  let ?p1 = "exampleComponent ''db1'' ''default'' ''pod'' ''app=db1'' ''db''"
  let ?s = "exampleComponent ''db-svc'' ''default'' ''service'' [] ''db''"
  let ?p2 = "exampleComponent ''db2'' ''default'' ''pod'' ''app=db2'' ''db''"
  let ?p3 = "exampleComponent ''db2'' ''default'' ''pod'' ''app=db1'' ''db''"
  show "IsCondition (exampleVerify [?p1, ?s, ?p2]) ''db'' ''unique-node'' [] =
     (Returns (True, None),
      [GetPodNodesCall ''default'' ''app=db1'', GetPodNodesCall ''default'' ''app=db2''])"
    using unique_node_condition
      [of "exampleVerify [?p1, ?s, ?p2]" "exampleInstallation [?p1, ?s, ?p2]" "[?p1, ?p2]"
          "''db''" "[]"]
    by (simp add: example_defs aliasPods_def podNodesOk_def podNodesAt_def podNodesCall_def
        reportedNodes_def TrimSpace_labels less_Suc_eq)
  show "IsCondition (exampleVerify [?p1, ?p3]) ''db'' ''unique-node'' [] =
     (Returns (False, None),
      [GetPodNodesCall ''default'' ''app=db1'', GetPodNodesCall ''default'' ''app=db1''])"
    using unique_node_condition
      [of "exampleVerify [?p1, ?p3]" "exampleInstallation [?p1, ?p3]" "[?p1, ?p3]"
          "''db''" "[]"]
    by (simp add: example_defs aliasPods_def podNodesOk_def podNodesAt_def podNodesCall_def
        reportedNodes_def TrimSpace_labels less_Suc_eq)
qed

text \<open>
  Without the condition on labels and errors the equivalence fails: for one pod component
  with the alias and no labels, no node name is reported twice (the runner would report
  the single node A, and it is not even asked), and the check returns \<open>false\<close> with an
  error.
\<close>

theorem unique_node_counterexample:
  "\<not> (fst (IsCondition
            (exampleVerify [exampleComponent ''db'' ''default'' ''pod'' [] ''db''])
            ''db'' ''unique-node'' []) = Returns (True, None) \<longleftrightarrow>
        distinct
          (reportedNodes (exampleVerify [exampleComponent ''db'' ''default'' ''pod'' [] ''db'']) []
             (aliasPods (exampleVerify [exampleComponent ''db'' ''default'' ''pod'' [] ''db''])
                ''db'' [exampleComponent ''db'' ''default'' ''pod'' [] ''db'']))) \<and>
   IsCondition
     (exampleVerify [exampleComponent ''db'' ''default'' ''pod'' [] ''db''])
     ''db'' ''unique-node'' [] =
     (Returns (False, Some (NodeLabelsRequired ''pod'')), []) \<and>
   aliasPods (exampleVerify [exampleComponent ''db'' ''default'' ''pod'' [] ''db'']) ''db''
     [exampleComponent ''db'' ''default'' ''pod'' [] ''db''] =
     [exampleComponent ''db'' ''default'' ''pod'' [] ''db''] \<and>
   reportedNodes (exampleVerify [exampleComponent ''db'' ''default'' ''pod'' [] ''db'']) []
     [exampleComponent ''db'' ''default'' ''pod'' [] ''db''] = [''A''] \<and>
   distinct [''A'']"
  by (simp add: example_defs IsCondition_def isEachComponentOnUniqueNode_def TrimSpace_Nil
      aliasPods_def reportedNodes_def podNodesAt_def)

section \<open>Alias-keyed actions\<close>

lemma getMatchingPodComponent_single:
  "installation v = Some i \<Longrightarrow>
   aliasPods v alias (Components i) = [c] \<Longrightarrow>
   getMatchingPodComponent v alias = Returns (c, None)"
  by (simp add: getMatchingPodComponent_def aliasPods_def)

text \<open>
  Claim C3. With an installation present, \<open>getMatchingPodComponent\<close> returns a component
  and no error exactly when one component is of pod kind and carries the alias, and it is
  that component. With no such component and with more than one it returns an error, and
  both actions return \<open>false\<close> with that error without making a call.
\<close>

theorem getMatchingPodComponent_exactly_one:
  assumes "installation v = Some i"
    and "m = aliasPods v alias (Components i)"
  shows
    "((\<exists>c. getMatchingPodComponent v alias = Returns (c, None)) \<longleftrightarrow> length m = 1) \<and>
     (length m = 1 \<longrightarrow> getMatchingPodComponent v alias = Returns (m ! 0, None)) \<and>
     (length m = 0 \<longrightarrow>
        getMatchingPodComponent v alias = Returns (zeroComponent, Some (ComponentNotFound alias)) \<and>
        IsAction v alias ''delete-any-pod'' h = (Returns (False, Some (ComponentNotFound alias)), h) \<and>
        IsAction v alias ''delete-oldest-pod'' h =
          (Returns (False, Some (ComponentNotFound alias)), h)) \<and>
     (length m > 1 \<longrightarrow>
        getMatchingPodComponent v alias = Returns (zeroComponent, Some (MultipleComponents alias)) \<and>
        IsAction v alias ''delete-any-pod'' h = (Returns (False, Some (MultipleComponents alias)), h) \<and>
        IsAction v alias ''delete-oldest-pod'' h =
          (Returns (False, Some (MultipleComponents alias)), h))"
proof -
  have g: "getMatchingPodComponent v alias =
      (if length m = 0 then Returns (zeroComponent, Some (ComponentNotFound alias))
       else if length m > 1 then Returns (zeroComponent, Some (MultipleComponents alias))
       else Returns (m ! 0, None))"
    using assms by (simp add: getMatchingPodComponent_def aliasPods_def)
  have one: "length m = 1 \<longleftrightarrow> \<not> length m = 0 \<and> \<not> length m > 1"
    by arith
  show ?thesis
    unfolding one
    by (simp add: g IsAction_def isDeleteAnyRunningPod_def isDeleteOldestRunningPod_def)
qed

theorem getMatchingPodComponent_exactly_one_witness:
  "getMatchingPodComponent
     (exampleVerify
        [exampleComponent ''app'' ''default'' ''pod'' ''name=app'' ''app'',
         exampleComponent ''app-svc'' ''default'' ''service'' [] ''app'',
         exampleComponent ''db1'' ''default'' ''pod'' ''app=db1'' ''db'',
         exampleComponent ''db2'' ''default'' ''pod'' ''app=db2'' ''db'']) ''app'' =
     Returns (exampleComponent ''app'' ''default'' ''pod'' ''name=app'' ''app'', None) \<and>
   IsAction
     (exampleVerify
        [exampleComponent ''app'' ''default'' ''pod'' ''name=app'' ''app'',
         exampleComponent ''app-svc'' ''default'' ''service'' [] ''app'',
         exampleComponent ''db1'' ''default'' ''pod'' ''app=db1'' ''db'',
         exampleComponent ''db2'' ''default'' ''pod'' ''app=db2'' ''db''])
     ''db'' ''delete-any-pod'' [] =
     (Returns (False, Some (MultipleComponents ''db'')), []) \<and>
   IsAction
     (exampleVerify
        [exampleComponent ''app'' ''default'' ''pod'' ''name=app'' ''app'',
         exampleComponent ''app-svc'' ''default'' ''service'' [] ''app'',
         exampleComponent ''db1'' ''default'' ''pod'' ''app=db1'' ''db'',
         exampleComponent ''db2'' ''default'' ''pod'' ''app=db2'' ''db''])
     ''web'' ''delete-oldest-pod'' [] =
     (Returns (False, Some (ComponentNotFound ''web'')), [])"
proof (intro conjI)
  let ?cs = "[exampleComponent ''app'' ''default'' ''pod'' ''name=app'' ''app'',
         exampleComponent ''app-svc'' ''default'' ''service'' [] ''app'',
         exampleComponent ''db1'' ''default'' ''pod'' ''app=db1'' ''db'',
         exampleComponent ''db2'' ''default'' ''pod'' ''app=db2'' ''db'']"
  show "getMatchingPodComponent (exampleVerify ?cs) ''app'' =
     Returns (exampleComponent ''app'' ''default'' ''pod'' ''name=app'' ''app'', None)"
    using getMatchingPodComponent_exactly_one
      [of "exampleVerify ?cs" "exampleInstallation ?cs"
          "[exampleComponent ''app'' ''default'' ''pod'' ''name=app'' ''app'']" "''app''" "[]"]
    by (simp add: example_defs)
  show "IsAction (exampleVerify ?cs) ''db'' ''delete-any-pod'' [] =
     (Returns (False, Some (MultipleComponents ''db'')), [])"
    using getMatchingPodComponent_exactly_one
      [of "exampleVerify ?cs" "exampleInstallation ?cs"
          "[exampleComponent ''db1'' ''default'' ''pod'' ''app=db1'' ''db'',
            exampleComponent ''db2'' ''default'' ''pod'' ''app=db2'' ''db'']" "''db''" "[]"]
    by (simp add: example_defs)
  show "IsAction (exampleVerify ?cs) ''web'' ''delete-oldest-pod'' [] =
     (Returns (False, Some (ComponentNotFound ''web'')), [])"
    using getMatchingPodComponent_exactly_one
      [of "exampleVerify ?cs" "exampleInstallation ?cs" "[]" "''web''" "[]"]
    by (simp add: example_defs)
qed

lemma IsRunning_loop_error:
  "c \<in> set cs \<Longrightarrow> IsPod (kubectl v) (Kind c) \<Longrightarrow> length (TrimSpace (Labels c)) = 0 \<Longrightarrow>
   snd (fst (IsRunning_loop v cs r h)) \<noteq> None"
proof (induction cs arbitrary: r h)
  case Nil
  then show ?case by simp
next
  case (Cons d cs)
  show ?case
  proof (cases "snd (fst (isPodComponentRunning v d h)) = None")
    case True
    then have "d \<noteq> c"
      using Cons.prems by (auto simp: isPodComponentRunning_def)
    then have "c \<in> set cs" using Cons.prems by simp
    then show ?thesis
      using True Cons.IH Cons.prems by (simp split: prod.splits)
  next
    case False
    then show ?thesis by (auto split: prod.splits)
  qed
qed

text \<open>
  Claim C4. For a component of pod kind whose labels are empty or white space only, the
  running check of the component returns an error and makes no call, \<open>IsRunning\<close> of an
  installation that holds the component returns an error, and when the component is the
  only pod component with the alias, both actions return an error and make no call.
\<close>

theorem pod_without_labels_fails:
  assumes "IsPod (kubectl v) (Kind c)" and "length (TrimSpace (Labels c)) = 0"
  shows
    "isPodComponentRunning v c h = ((False, Some (LabelsRequired (Kind c))), h) \<and>
     (installation v = Some i \<and> c \<in> set (Components i) \<longrightarrow>
        snd (fst (IsRunning v h)) \<noteq> None) \<and>
     (installation v = Some i \<and>
      aliasPods v alias (Components i) = [c] \<longrightarrow>
        IsAction v alias ''delete-any-pod'' h =
          (Returns (False, Some (LabelsMissing (Kind c) alias)), h) \<and>
        IsAction v alias ''delete-oldest-pod'' h =
          (Returns (False, Some (LabelsMissing (Kind c) alias)), h))"
proof (intro conjI impI)
  show "isPodComponentRunning v c h = ((False, Some (LabelsRequired (Kind c))), h)"
    using assms by (simp add: isPodComponentRunning_def)
next
  assume "installation v = Some i \<and> c \<in> set (Components i)"
  then show "snd (fst (IsRunning v h)) \<noteq> None"
    using IsRunning_loop_error [of c "Components i" v "(False, None)" h] assms
    by (simp add: IsRunning_def)
next
  assume "installation v = Some i \<and>
    aliasPods v alias (Components i) = [c]"
  then have g: "getMatchingPodComponent v alias = Returns (c, None)"
    by (simp add: getMatchingPodComponent_single)
  show "IsAction v alias ''delete-any-pod'' h =
      (Returns (False, Some (LabelsMissing (Kind c) alias)), h)"
    using assms g by (simp add: IsAction_def isDeleteAnyRunningPod_def)
  show "IsAction v alias ''delete-oldest-pod'' h =
      (Returns (False, Some (LabelsMissing (Kind c) alias)), h)"
    using assms g by (simp add: IsAction_def isDeleteOldestRunningPod_def)
qed

theorem pod_without_labels_fails_witness:
  "IsPod exampleRunner ''pod'' \<and> length (TrimSpace ''  '') = 0 \<and>
   isPodComponentRunning
     (exampleVerify [exampleComponent ''db'' ''default'' ''pod'' ''  '' ''db''])
     (exampleComponent ''db'' ''default'' ''pod'' ''  '' ''db'') [] =
     ((False, Some (LabelsRequired ''pod'')), []) \<and>
   snd (fst (IsRunning
     (exampleVerify [exampleComponent ''db'' ''default'' ''pod'' ''  '' ''db'']) [])) \<noteq> None \<and>
   IsAction (exampleVerify [exampleComponent ''db'' ''default'' ''pod'' ''  '' ''db''])
     ''db'' ''delete-any-pod'' [] = (Returns (False, Some (LabelsMissing ''pod'' ''db'')), []) \<and>
   IsAction (exampleVerify [exampleComponent ''db'' ''default'' ''pod'' ''  '' ''db''])
     ''db'' ''delete-oldest-pod'' [] = (Returns (False, Some (LabelsMissing ''pod'' ''db'')), [])"
  using pod_without_labels_fails
    [of "exampleVerify [exampleComponent ''db'' ''default'' ''pod'' ''  '' ''db'']"
        "exampleComponent ''db'' ''default'' ''pod'' ''  '' ''db''" "[]"
        "exampleInstallation [exampleComponent ''db'' ''default'' ''pod'' ''  '' ''db'']" "''db''"]
  by (simp add: example_defs TrimSpace_blanks)

text \<open>
  Claim C5. The action \<open>delete-oldest-pod\<close>, when one pod component carries the alias and
  has labels: an empty pod name without an error gives the not-found error and no delete;
  a pod name and a successful delete give \<open>(true, nil)\<close>; an error of the query is
  returned with \<open>false\<close> and no delete; an error of the delete is returned with \<open>false\<close>.
\<close>

theorem delete_oldest_pod:
  assumes "installation v = Some i"
    and "aliasPods v alias (Components i) = [c]"
    and "length (TrimSpace (Labels c)) \<noteq> 0"
    and "GetOldestRunningPod (kubectl v) h (Namespace c) (Labels c) = (pod, err)"
    and "h1 = h @ [GetOldestRunningPodCall (Namespace c) (Labels c)]"
  shows
    "(err = None \<and> length pod = 0 \<longrightarrow>
        IsAction v alias ''delete-oldest-pod'' h =
          (Returns (False, Some (OldestPodNotFound alias)), h1)) \<and>
     (err = None \<and> length pod \<noteq> 0 \<and> DeletePod (kubectl v) h1 pod (Namespace c) = None \<longrightarrow>
        IsAction v alias ''delete-oldest-pod'' h =
          (Returns (True, None), h1 @ [DeletePodCall pod (Namespace c)])) \<and>
     (\<forall>e. err = Some e \<longrightarrow>
        IsAction v alias ''delete-oldest-pod'' h = (Returns (False, Some e), h1)) \<and>
     (\<forall>e. err = None \<and> length pod \<noteq> 0 \<and> DeletePod (kubectl v) h1 pod (Namespace c) = Some e \<longrightarrow>
        IsAction v alias ''delete-oldest-pod'' h =
          (Returns (False, Some e), h1 @ [DeletePodCall pod (Namespace c)]))"
  using assms
  by (simp add: IsAction_def isDeleteOldestRunningPod_def getMatchingPodComponent_single Let_def)

text \<open>
  Instances: the oldest pod is deleted; once it is gone the action finds no pod; the
  query fails; the delete fails.
\<close>

theorem delete_oldest_pod_witness:
  "IsAction (exampleVerify [exampleComponent ''db'' ''default'' ''pod'' ''app=db1'' ''db''])
     ''db'' ''delete-oldest-pod'' [] =
     (Returns (True, None),
      [GetOldestRunningPodCall ''default'' ''app=db1'', DeletePodCall ''db-0'' ''default'']) \<and>
   IsAction (exampleVerify [exampleComponent ''db'' ''default'' ''pod'' ''app=db1'' ''db''])
     ''db'' ''delete-oldest-pod'' [DeletePodCall ''db-0'' ''default''] =
     (Returns (False, Some (OldestPodNotFound ''db'')),
      [DeletePodCall ''db-0'' ''default'', GetOldestRunningPodCall ''default'' ''app=db1'']) \<and>
   IsAction (exampleVerify [exampleComponent ''db'' ''default'' ''pod'' ''app=down'' ''db''])
     ''db'' ''delete-oldest-pod'' [] =
     (Returns (False, Some (External ''timeout'')),
      [GetOldestRunningPodCall ''default'' ''app=down'']) \<and>
   IsAction (exampleVerify [exampleComponent ''db'' ''locked'' ''pod'' ''app=db1'' ''db''])
     ''db'' ''delete-oldest-pod'' [] =
     (Returns (False, Some (External ''forbidden'')),
      [GetOldestRunningPodCall ''locked'' ''app=db1'', DeletePodCall ''db-0'' ''locked''])"
proof (intro conjI)
  let ?c = "exampleComponent ''db'' ''default'' ''pod'' ''app=db1'' ''db''"
  let ?d = "exampleComponent ''db'' ''default'' ''pod'' ''app=down'' ''db''"
  let ?l = "exampleComponent ''db'' ''locked'' ''pod'' ''app=db1'' ''db''"
  show "IsAction (exampleVerify [?c]) ''db'' ''delete-oldest-pod'' [] =
     (Returns (True, None),
      [GetOldestRunningPodCall ''default'' ''app=db1'', DeletePodCall ''db-0'' ''default''])"
    using delete_oldest_pod
      [of "exampleVerify [?c]" "exampleInstallation [?c]" "''db''" ?c "[]" "''db-0''" None
          "[GetOldestRunningPodCall ''default'' ''app=db1'']"]
    by (simp add: example_defs TrimSpace_labels)
  show "IsAction (exampleVerify [?c]) ''db'' ''delete-oldest-pod''
       [DeletePodCall ''db-0'' ''default''] =
     (Returns (False, Some (OldestPodNotFound ''db'')),
      [DeletePodCall ''db-0'' ''default'', GetOldestRunningPodCall ''default'' ''app=db1''])"
    using delete_oldest_pod
      [of "exampleVerify [?c]" "exampleInstallation [?c]" "''db''" ?c
          "[DeletePodCall ''db-0'' ''default'']" "[]" None
          "[DeletePodCall ''db-0'' ''default'', GetOldestRunningPodCall ''default'' ''app=db1'']"]
    by (simp add: example_defs TrimSpace_labels)
  show "IsAction (exampleVerify [?d]) ''db'' ''delete-oldest-pod'' [] =
     (Returns (False, Some (External ''timeout'')),
      [GetOldestRunningPodCall ''default'' ''app=down''])"
    using delete_oldest_pod
      [of "exampleVerify [?d]" "exampleInstallation [?d]" "''db''" ?d "[]" "''db-0''"
          "Some (External ''timeout'')" "[GetOldestRunningPodCall ''default'' ''app=down'']"]
    by (simp add: example_defs TrimSpace_labels)
  show "IsAction (exampleVerify [?l]) ''db'' ''delete-oldest-pod'' [] =
     (Returns (False, Some (External ''forbidden'')),
      [GetOldestRunningPodCall ''locked'' ''app=db1'', DeletePodCall ''db-0'' ''locked''])"
    using delete_oldest_pod
      [of "exampleVerify [?l]" "exampleInstallation [?l]" "''db''" ?l "[]" "''db-0''" None
          "[GetOldestRunningPodCall ''locked'' ''app=db1'']"]
    by (simp add: example_defs TrimSpace_labels)
qed

section \<open>Unsupported names, connection, loading\<close>

text \<open>
  Claim C6. A condition other than \<open>unique-node\<close> and an action other than
  \<open>delete-any-pod\<close> and \<open>delete-oldest-pod\<close> give \<open>false\<close> and an error.
\<close>

theorem IsCondition_IsAction_unsupported:
  "(condition \<noteq> ''unique-node'' \<longrightarrow>
      IsCondition v alias condition h =
        (Returns (False, Some (ConditionNotSupported condition)), h)) \<and>
   (action \<noteq> ''delete-any-pod'' \<and> action \<noteq> ''delete-oldest-pod'' \<longrightarrow>
      IsAction v alias action h = (Returns (False, Some (ActionNotSupported action)), h))"
  by (simp add: IsCondition_def IsAction_def)

theorem IsCondition_IsAction_unsupported_witness:
  "''zone-spread'' \<noteq> ''unique-node'' \<and>
   IsCondition (exampleVerify []) ''db'' ''zone-spread'' [] =
     (Returns (False, Some (ConditionNotSupported ''zone-spread'')), []) \<and>
   ''delete-all-pods'' \<noteq> ''delete-any-pod'' \<and> ''delete-all-pods'' \<noteq> ''delete-oldest-pod'' \<and>
   IsAction (exampleVerify []) ''db'' ''delete-all-pods'' [] =
     (Returns (False, Some (ActionNotSupported ''delete-all-pods'')), [])"
  using IsCondition_IsAction_unsupported
    [of "''zone-spread''" "exampleVerify []" "''db''" "[]" "''delete-all-pods''"]
  by simp

text \<open>
  Claim C7. \<open>IsConnected\<close> makes the one call \<open>Run ["get", "pods"]\<close>; \<open>yes\<close> is true
  exactly when the runner returned no error, and the error returned is the runner's.
\<close>

theorem IsConnected_runner:
  "IsConnected k h =
     ((snd (Run (KubeConnectionVerify.kubectl k) h [''get'', ''pods''] [] []) = None,
       snd (Run (KubeConnectionVerify.kubectl k) h [''get'', ''pods''] [] [])),
      h @ [RunCall [''get'', ''pods''] [] []])"
  by (simp add: IsConnected_def split: prod.splits)

text \<open>
  Claim C8. For an empty path, \<open>load\<close> fails, and \<open>NewKubeInstallVerify\<close> returns no
  verifier and an error.
\<close>

theorem load_empty_path:
  "length file = 0 \<Longrightarrow>
     load readFile yamlUnmarshal file = (None, Some VerifyFileNotProvided) \<and>
     NewKubeInstallVerify readFile yamlUnmarshal r file = (None, Some VerifyFileNotProvided)"
  by (simp add: load_def NewKubeInstallVerify_def)

theorem load_empty_path_witness:
  "length ([] :: string) = 0 \<and>
   load exampleReadFile exampleUnmarshal [] = (None, Some VerifyFileNotProvided) \<and>
   NewKubeInstallVerify exampleReadFile exampleUnmarshal exampleRunner [] =
     (None, Some VerifyFileNotProvided)"
  using load_empty_path [of "[]" exampleReadFile exampleUnmarshal exampleRunner]
  by simp

section \<open>IsRunning\<close>

text \<open>
  Claim C9. For a component whose kind is empty or white space only and is not classified
  as a pod, \<open>isPodComponentRunning\<close> returns \<open>true\<close> together with the error that the
  kind is required, and so does \<open>IsRunning\<close> of an installation that starts with the
  component.
\<close>

theorem blank_kind_running:
  "length (TrimSpace (Kind c)) = 0 \<Longrightarrow> \<not> IsPod (kubectl v) (Kind c) \<Longrightarrow>
     isPodComponentRunning v c h = ((True, Some KindRequired), h) \<and>
     (installation v = Some i \<and> Components i = c # rest \<longrightarrow>
        IsRunning v h = ((True, Some KindRequired), h))"
  by (simp add: isPodComponentRunning_def IsRunning_def)

theorem blank_kind_running_witness:
  "length (TrimSpace ''  '') = 0 \<and> \<not> IsPod exampleRunner ''  '' \<and>
   isPodComponentRunning
     (exampleVerify
        [exampleComponent ''crd'' ''default'' ''  '' [] ''crd'',
         exampleComponent ''db'' ''default'' ''pod'' ''app=db1'' ''db''])
     (exampleComponent ''crd'' ''default'' ''  '' [] ''crd'') [] =
     ((True, Some KindRequired), []) \<and>
   IsRunning
     (exampleVerify
        [exampleComponent ''crd'' ''default'' ''  '' [] ''crd'',
         exampleComponent ''db'' ''default'' ''pod'' ''app=db1'' ''db'']) [] =
     ((True, Some KindRequired), [])"
  using blank_kind_running
    [of "exampleComponent ''crd'' ''default'' ''  '' [] ''crd''"
        "exampleVerify
           [exampleComponent ''crd'' ''default'' ''  '' [] ''crd'',
            exampleComponent ''db'' ''default'' ''pod'' ''app=db1'' ''db'']"
        "[]"
        "exampleInstallation
           [exampleComponent ''crd'' ''default'' ''  '' [] ''crd'',
            exampleComponent ''db'' ''default'' ''pod'' ''app=db1'' ''db'']"
        "[exampleComponent ''db'' ''default'' ''pod'' ''app=db1'' ''db'']"]
  by (simp add: example_defs TrimSpace_blanks)

text \<open>
  Claim C10. For an installation without components, \<open>IsDeployed\<close> and \<open>IsRunning\<close>
  return \<open>(false, nil)\<close> and make no call.
\<close>

theorem empty_installation:
  "installation v = Some i \<Longrightarrow> Components i = [] \<Longrightarrow>
     IsDeployed v h = ((False, None), h) \<and> IsRunning v h = ((False, None), h)"
  by (simp add: IsDeployed_def IsRunning_def)

theorem empty_installation_witness:
  "installation (exampleVerify []) = Some (exampleInstallation []) \<and>
   Components (exampleInstallation []) = [] \<and>
   IsDeployed (exampleVerify []) [] = ((False, None), []) \<and>
   IsRunning (exampleVerify []) [] = ((False, None), [])"
  using empty_installation [of "exampleVerify []" "exampleInstallation []" "[]"]
  by (simp add: example_defs)

end
